theory Spec2Isabelle
  imports Complex_Main "HOL-Library.Char_ord" "HOL-Library.List_Lexorder"
begin

section \<open>Python values, exceptions and data frames\<close>

text \<open>
  The application (\<open>app.py\<close>) is dynamically typed: a cell of the table, a class label and
  a keyword argument are Python objects. The objects that occur are strings, integers
  and booleans. Strings are ordered as Python orders them (lexicographically by
  character code), integers numerically.
\<close>

datatype pyval = PStr string | PInt int | PBool bool

text \<open>
  The exceptions the program can end with. \<open>AttributeError\<close> is what pandas raises for
  \<open>df.type\<close> on a frame without such a column, \<open>TypeError\<close>, \<open>ValueError\<close> and
  \<open>IndexError\<close> are what scikit-learn raises, \<open>NameError\<close> is Python's error for a free
  variable that is not yet bound, \<open>NotFittedError\<close> scikit-learn's for an estimator used
  before \<open>fit\<close>.
  \<open>InvalidSchemaError\<close> is the name the specification uses; no statement of the program
  raises it.
\<close>

datatype error =
    FileNotFoundError
  | AttributeError
  | TypeError
  | ValueError
  | IndexError
  | NameError
  | NotFittedError
  | InvalidSchemaError

text \<open>
  A pandas \<open>DataFrame\<close>: the length of its index and its named columns, in order.
  \<open>len(df)\<close> is \<open>nrows df\<close>. pandas keeps every column as long as the index, so a row
  number below \<open>nrows df\<close> is within every column.
\<close>

record dataframe =
  nrows :: nat
  columns :: "(string \<times> pyval list) list"

section \<open>\<open>LabelEncoder.fit_transform\<close>\<close>

text \<open>
  scikit-learn's \<open>LabelEncoder\<close>: \<open>fit\<close> stores the sorted distinct values of the column
  as \<open>classes_\<close>, \<open>transform\<close> replaces each value by its position in \<open>classes_\<close>.
  A column that mixes strings and numbers is rejected with a \<open>TypeError\<close>.
\<close>

fun is_str :: "pyval \<Rightarrow> bool" where
  "is_str (PStr s) = True"
| "is_str v = False"

fun is_int :: "pyval \<Rightarrow> bool" where
  "is_int (PInt i) = True"
| "is_int v = False"

fun is_bool :: "pyval \<Rightarrow> bool" where
  "is_bool (PBool b) = True"
| "is_bool v = False"

fun strs_of :: "pyval list \<Rightarrow> string list" where
  "strs_of [] = []"
| "strs_of (PStr s # vs) = s # strs_of vs"
| "strs_of (v # vs) = strs_of vs"

fun ints_of :: "pyval list \<Rightarrow> int list" where
  "ints_of [] = []"
| "ints_of (PInt i # vs) = i # ints_of vs"
| "ints_of (v # vs) = ints_of vs"

fun bools_of :: "pyval list \<Rightarrow> bool list" where
  "bools_of [] = []"
| "bools_of (PBool b # vs) = b # bools_of vs"
| "bools_of (v # vs) = bools_of vs"

definition unique_sorted :: "pyval list \<Rightarrow> error + pyval list" where
  "unique_sorted vs =
     (if list_all is_str vs then Inr (map PStr (sort (remdups (strs_of vs))))
      else if list_all is_int vs then Inr (map PInt (sort (remdups (ints_of vs))))
      else if list_all is_bool vs then Inr (map PBool (sort (remdups (bools_of vs))))
      else Inl TypeError)"

fun index_of :: "'a list \<Rightarrow> 'a \<Rightarrow> nat" where
  "index_of [] v = 0"
| "index_of (x # xs) v = (if x = v then 0 else Suc (index_of xs v))"

definition fit_transform :: "pyval list \<Rightarrow> error + pyval list" where
  "fit_transform vs =
     (case unique_sorted vs of
        Inl e \<Rightarrow> Inl e
      | Inr classes \<Rightarrow> Inr (map (\<lambda>v. PInt (int (index_of classes v))) vs))"

section \<open>The dataset loader\<close>

text \<open>
  The world the program runs in: the files on disk (a CSV file is given by the frame
  \<open>pd.read_csv\<close> parses it to; \<open>read_csv\<close> names duplicate headers apart, so the column
  names of a parsed frame are distinct), a counter of the reads of the disk, and the two
  stores of \<open>@st.cache(persist=True)\<close>, one per decorated function. The store of
  \<open>split\<close> is keyed by the value of its argument.
\<close>

type_synonym split_result = "dataframe \<times> dataframe \<times> pyval list \<times> pyval list"

record world =
  files :: "string \<Rightarrow> dataframe option"
  reads :: nat
  load_data_cache :: "dataframe option"
  split_cache :: "(dataframe \<times> split_result) list"

definition read_csv :: "string \<Rightarrow> world \<Rightarrow> (error + dataframe) \<times> world" where
  "read_csv path w =
     (case files w path of
        None \<Rightarrow> (Inl FileNotFoundError, w)
      | Some data \<Rightarrow> (Inr data, w\<lparr>reads := reads w + 1\<rparr>))"

text \<open>
  The loop \<open>for col in data.columns: data[col] = label.fit_transform(data[col])\<close>:
  every column is replaced by its codes, in column order; the first column the encoder
  rejects ends the loop with its exception.
\<close>

fun encode_columns :: "(string \<times> pyval list) list \<Rightarrow> error + (string \<times> pyval list) list" where
  "encode_columns [] = Inr []"
| "encode_columns ((col, vs) # rest) =
     (case fit_transform vs of
        Inl e \<Rightarrow> Inl e
      | Inr codes \<Rightarrow>
          (case encode_columns rest of
             Inl e \<Rightarrow> Inl e
           | Inr rest' \<Rightarrow> Inr ((col, codes) # rest')))"

text \<open>The body of \<open>load_data\<close> (lines 35-40), as it runs on a cache miss.\<close>

definition load_data_body :: "world \<Rightarrow> (error + dataframe) \<times> world" where
  "load_data_body w =
     (case read_csv ''mushrooms.csv'' w of
        (Inl e, w') \<Rightarrow> (Inl e, w')
      | (Inr data, w') \<Rightarrow>
          (case encode_columns (columns data) of
             Inl e \<Rightarrow> (Inl e, w')
           | Inr cols \<Rightarrow> (Inr (data\<lparr>columns := cols\<rparr>), w')))"

text \<open>
  \<open>load_data\<close> as decorated with \<open>@st.cache(persist=True)\<close>: the function has no
  argument, so its store holds at most one value. A hit returns the stored frame and
  does not run the body; a miss runs the body and stores its result; an exception is
  not stored.
\<close>

definition load_data :: "world \<Rightarrow> (error + dataframe) \<times> world" where
  "load_data w =
     (case load_data_cache w of
        Some df \<Rightarrow> (Inr df, w)
      | None \<Rightarrow>
          (case load_data_body w of
             (Inl e, w') \<Rightarrow> (Inl e, w')
           | (Inr df, w') \<Rightarrow> (Inr df, w'\<lparr>load_data_cache := Some df\<rparr>)))"

section \<open>The splitter\<close>

text \<open>
  scikit-learn's \<open>train_test_split(x, y, test_size=0.3, random_state=0)\<close>. The library
  checks that \<open>x\<close> and \<open>y\<close> have the same number of samples, takes
  \<open>n_test = ceil(test_size * n_samples)\<close> and \<open>n_train = n_samples - n_test\<close>, refuses an
  empty training set with a \<open>ValueError\<close>, and cuts a permutation of the row numbers into
  the first \<open>n_test\<close> (test) and the next \<open>n_train\<close> (train). The permutation is numpy's
  shuffle of \<open>0, ..., n-1\<close>: for \<open>i\<close> from \<open>n-1\<close> down to \<open>1\<close>, exchange position \<open>i\<close> with a
  position drawn from \<open>0..i\<close>. The draws of the generator seeded with \<open>0\<close> are the
  parameter \<open>draw\<close> (the draw of step \<open>i\<close>, reduced into \<open>0..i\<close>). The product
  \<open>0.3 * n_samples\<close> is taken as the exact rational: for every row count below \<open>2^50\<close>
  the double-precision product has the same ceiling.
\<close>

definition swap :: "nat \<Rightarrow> nat \<Rightarrow> 'a list \<Rightarrow> 'a list" where
  "swap i j xs = xs[i := xs ! j, j := xs ! i]"

fun shuffle :: "(nat \<Rightarrow> nat) \<Rightarrow> nat \<Rightarrow> nat list \<Rightarrow> nat list" where
  "shuffle draw 0 xs = xs"
| "shuffle draw (Suc i) xs = shuffle draw i (swap (Suc i) (draw (Suc i) mod Suc (Suc i)) xs)"

definition permutation :: "(nat \<Rightarrow> nat) \<Rightarrow> nat \<Rightarrow> nat list" where
  "permutation draw n = shuffle draw (n - 1) [0..<n]"

definition iloc :: "dataframe \<Rightarrow> nat list \<Rightarrow> dataframe" where
  "iloc df idx =
     \<lparr>nrows = length idx, columns = map (\<lambda>(col, vs). (col, map (\<lambda>i. vs ! i) idx)) (columns df)\<rparr>"

definition n_test_of :: "nat \<Rightarrow> nat" where
  "n_test_of n_samples = nat \<lceil>(3 / 10 :: rat) * of_nat n_samples\<rceil>"

definition train_test_split ::
  "(nat \<Rightarrow> nat) \<Rightarrow> dataframe \<Rightarrow> pyval list \<Rightarrow> error + split_result" where
  "train_test_split draw x y =
     (let n_samples = nrows x in
      if length y \<noteq> n_samples then Inl ValueError
      else
        let n_test = n_test_of n_samples;
            n_train = n_samples - n_test
        in if n_train = 0 then Inl ValueError
           else
             let perm = permutation draw n_samples;
                 ind_test = take n_test perm;
                 ind_train = take n_train (drop n_test perm)
             in Inr (iloc x ind_train, iloc x ind_test,
                     map (\<lambda>i. y ! i) ind_train, map (\<lambda>i. y ! i) ind_test))"

text \<open>
  The body of \<open>split\<close> (lines 45-49). \<open>df.type\<close> is pandas' attribute access to the column
  named \<open>type\<close>; a frame without such a column has no such attribute and pandas raises
  \<open>AttributeError\<close>.
\<close>

definition df_type :: "dataframe \<Rightarrow> error + pyval list" where
  "df_type df =
     (case map_of (columns df) ''type'' of
        None \<Rightarrow> Inl AttributeError
      | Some y \<Rightarrow> Inr y)"

definition drop_type :: "dataframe \<Rightarrow> dataframe" where
  "drop_type df = df\<lparr>columns := filter (\<lambda>(col, vs). col \<noteq> ''type'') (columns df)\<rparr>"

definition split_body :: "(nat \<Rightarrow> nat) \<Rightarrow> dataframe \<Rightarrow> error + split_result" where
  "split_body draw df =
     (case df_type df of
        Inl e \<Rightarrow> Inl e
      | Inr y \<Rightarrow> train_test_split draw (drop_type df) y)"

text \<open>\<open>split\<close> as decorated with \<open>@st.cache(persist=True)\<close>, keyed by its argument.\<close>

definition split :: "(nat \<Rightarrow> nat) \<Rightarrow> dataframe \<Rightarrow> world \<Rightarrow> (error + split_result) \<times> world" where
  "split draw df w =
     (case map_of (split_cache w) df of
        Some r \<Rightarrow> (Inr r, w)
      | None \<Rightarrow>
          (case split_body draw df of
             Inl e \<Rightarrow> (Inl e, w)
           | Inr r \<Rightarrow> (Inr r, w\<lparr>split_cache := (df, r) # split_cache w\<rparr>)))"

text \<open>
  The persisted store of \<open>split\<close> holds what earlier runs of the same function stored:
  every entry is the result of the body on its key.
\<close>

definition split_cache_ok :: "(nat \<Rightarrow> nat) \<Rightarrow> world \<Rightarrow> bool" where
  "split_cache_ok draw w = list_all (\<lambda>(df, r). split_body draw df = Inr r) (split_cache w)"

text \<open>
  The store of \<open>load_data\<close> is consistent with the dataset snapshot on disk when it is
  empty or holds what the body computes from the file as it is now.
\<close>

definition load_cache_ok :: "world \<Rightarrow> bool" where
  "load_cache_ok w =
     (case load_data_cache w of
        None \<Rightarrow> True
      | Some df \<Rightarrow> fst (load_data_body w) = Inr df)"

section \<open>Metrics\<close>

text \<open>
  A Python float: a number, or NaN (numpy's mean of an empty array). Numbers are exact
  rationals here; the program's are double-precision approximations of them.
\<close>

datatype pyfloat = Num rat | NaN

text \<open>
  \<open>model.score(x_test, y_test)\<close> is scikit-learn's \<open>accuracy_score\<close> of
  \<open>model.predict(x_test)\<close>: the mean of the indicator \<open>y_pred == y_test\<close> (the comment at
  line 91: "the mean accuracy on the given test data and labels"). Vectors of different
  lengths are refused with a \<open>ValueError\<close>.
\<close>

definition count_pairs :: "(pyval \<Rightarrow> pyval \<Rightarrow> bool) \<Rightarrow> pyval list \<Rightarrow> pyval list \<Rightarrow> nat" where
  "count_pairs P y_true y_pred = length (filter (\<lambda>(t, p). P t p) (zip y_true y_pred))"

definition accuracy_score :: "pyval list \<Rightarrow> pyval list \<Rightarrow> error + pyfloat" where
  "accuracy_score y_true y_pred =
     (if length y_true \<noteq> length y_pred then Inl ValueError
      else if y_true = [] then Inr NaN
      else Inr (Num (of_nat (count_pairs (\<lambda>t p. t = p) y_true y_pred) / of_nat (length y_true))))"

text \<open>
  \<open>precision_score\<close> and \<open>recall_score\<close> are called with the default
  \<open>average='binary'\<close> and \<open>pos_label=1\<close>. scikit-learn then requires targets with at most
  two labels, with \<open>pos_label\<close> among them when there are two, and replaces the
  \<open>labels\<close> argument by \<open>[pos_label]\<close>: the argument is received and not used. The
  precision is \<open>tp / (tp + fp)\<close> (line 95), the recall \<open>tp / (tp + fn)\<close> (line 97), each
  \<open>0\<close> when its denominator is \<open>0\<close>.
\<close>

definition check_binary_targets :: "pyval list \<Rightarrow> pyval list \<Rightarrow> error option" where
  "check_binary_targets y_true y_pred =
     (let present_labels = remdups (y_true @ y_pred) in
      if length y_true \<noteq> length y_pred then Some ValueError
      else if 2 < length present_labels then Some ValueError
      else if PInt 1 \<notin> set present_labels \<and> 2 \<le> length present_labels then Some ValueError
      else None)"

definition precision_score :: "pyval list \<Rightarrow> pyval list \<Rightarrow> pyval list \<Rightarrow> error + pyfloat" where
  "precision_score y_true y_pred labels =
     (case check_binary_targets y_true y_pred of
        Some e \<Rightarrow> Inl e
      | None \<Rightarrow>
          let tp = count_pairs (\<lambda>t p. t = PInt 1 \<and> p = PInt 1) y_true y_pred;
              pred_sum = count_pairs (\<lambda>t p. p = PInt 1) y_true y_pred
          in Inr (Num (if pred_sum = 0 then 0 else of_nat tp / of_nat pred_sum)))"

definition recall_score :: "pyval list \<Rightarrow> pyval list \<Rightarrow> pyval list \<Rightarrow> error + pyfloat" where
  "recall_score y_true y_pred labels =
     (case check_binary_targets y_true y_pred of
        Some e \<Rightarrow> Inl e
      | None \<Rightarrow>
          let tp = count_pairs (\<lambda>t p. t = PInt 1 \<and> p = PInt 1) y_true y_pred;
              true_sum = count_pairs (\<lambda>t p. t = PInt 1) y_true y_pred
          in Inr (Num (if true_sum = 0 then 0 else of_nat tp / of_nat true_sum)))"

text \<open>
  \<open>.round(2)\<close>: numpy rounds the double-precision product \<open>100 * x\<close> to the nearest
  integer (a tie to the even one) and divides by \<open>100\<close>. The product carries the rounding
  errors of the doubles, which stay below \<open>10^-12\<close> for a metric in \<open>[0, 1]\<close>. Away from a
  tie the result is the integer nearest to the exact product. Where the exact product
  lies within \<open>10^-12\<close> of a tie, the double decides the side, and the side is the
  library's: the parameter \<open>up\<close> (for \<open>23/40\<close>, exactly \<open>57.5\<close>, the double product is
  below the tie and the program shows \<open>0.57\<close>).
\<close>

definition rint :: "(rat \<Rightarrow> bool) \<Rightarrow> rat \<Rightarrow> int" where
  "rint up x =
     (let f = \<lfloor>x\<rfloor>; d = x - of_int f in
      if d < 1 / 2 - 1 / 10 ^ 12 then f
      else if 1 / 2 + 1 / 10 ^ 12 < d then f + 1
      else if up x then f + 1 else f)"

fun round2 :: "(rat \<Rightarrow> bool) \<Rightarrow> pyfloat \<Rightarrow> pyfloat" where
  "round2 up (Num x) = Num (of_int (rint up (x * 100)) / 100)"
| "round2 up NaN = NaN"

section \<open>The page: widgets, models and the trace of a run\<close>

text \<open>
  The values the widgets return in one run of the script: the option chosen in the
  select box and in each radio group (a widget returns the option itself, a string), the
  numbers entered, the options ticked in the multiselect (in the order of selection),
  whether the button was clicked and the checkbox ticked.
\<close>

record ui =
  classifier :: string
  C_SVM :: rat
  kernel :: string
  gamma :: string
  C_LR :: rat
  max_iter :: int
  n_estimators :: int
  max_depth :: int
  bootstrap :: string
  metrics :: "string list"
  classify_clicked :: bool
  show_raw_data :: bool

text \<open>
  A model instance is its constructor with the keyword arguments in the order the
  program writes them: \<open>SVC(C, kernel, gamma)\<close>, \<open>LogisticRegression(C, max_iter)\<close>,
  \<open>RandomForestClassifier(n_estimators, max_depth, bootstrap, n_jobs)\<close>. The
  \<open>bootstrap\<close> argument is the Python object the program passes.
\<close>

datatype model_params =
    SVC rat string string
  | LogisticRegression rat int
  | RandomForestClassifier int int pyval int

record estimator =
  params :: model_params
  fitted :: bool

datatype place = Page | Sidebar

datatype plot = ConfusionMatrix | ROCCurve | PrecisionRecallCurve

text \<open>
  The ways \<open>pDisplay.from_estimator\<close> fails on a fitted estimator: the ROC and the
  precision-recall display refuse an estimator that is not binary (a \<open>ValueError\<close>), and
  an estimator fitted on a single class has no column for the positive class (an
  \<open>IndexError\<close>).
\<close>

datatype display_failure = NotBinary | SingleClass

fun display_error :: "display_failure \<Rightarrow> error" where
  "display_error NotBinary = ValueError"
| "display_error SingleClass = IndexError"

text \<open>
  What the libraries compute and the program only calls: the draws of the seeded
  generator, whether \<open>fit\<close> accepts the model and the training split (it raises a
  \<open>ValueError\<close> otherwise), the predictions of the fitted model, whether a display of the
  fitted model on given data fails (the fitted model is given by its constructor call
  and the training split), and the side numpy's rounding takes near a tie.
\<close>

record sklearn =
  rng :: "nat \<Rightarrow> nat"
  fit_ok :: "model_params \<Rightarrow> dataframe \<Rightarrow> pyval list \<Rightarrow> bool"
  predict :: "model_params \<Rightarrow> dataframe \<Rightarrow> pyval list \<Rightarrow> dataframe \<Rightarrow> pyval list"
  display ::
    "plot \<Rightarrow> model_params \<Rightarrow> dataframe \<Rightarrow> pyval list \<Rightarrow> dataframe \<Rightarrow> pyval list \<Rightarrow>
     display_failure option"
  tie_up :: "rat \<Rightarrow> bool"

text \<open>
  The trace of a run: what is written to the page, and the calls that construct a model,
  fit it and draw a plot from it (\<open>Display p m x y\<close> is
  \<open>pDisplay.from_estimator(m, x, y)\<close>).
\<close>

datatype event =
    Title place string
  | Markdown place string
  | Subheader place string
  | Construct model_params
  | Fit model_params
  | Write string pyfloat
  | WriteFrame dataframe
  | Display plot estimator dataframe "pyval list"
  | Pyplot

text \<open>
  The local variables of \<open>main\<close> that the nested function \<open>plot_metrics\<close> and the three
  branches read, with the trace so far. \<open>model\<close> is \<open>None\<close> until an assignment binds it.
\<close>

record frame =
  trace :: "event list"
  model :: "estimator option"
  x_train :: dataframe
  x_test :: dataframe
  y_train :: "pyval list"
  y_test :: "pyval list"
  class_names :: "pyval list"

text \<open>A run either raises (the exception, with the trace up to it) or goes on.\<close>

type_synonym outcome = "(error \<times> event list) + frame"

definition emit :: "event \<Rightarrow> frame \<Rightarrow> frame" where
  "emit e fr = fr\<lparr>trace := trace fr @ [e]\<rparr>"

definition raise :: "error \<Rightarrow> frame \<Rightarrow> outcome" where
  "raise e fr = Inl (e, trace fr)"

definition then_run :: "outcome \<Rightarrow> (frame \<Rightarrow> outcome) \<Rightarrow> outcome" where
  "then_run r f = (case r of Inl e \<Rightarrow> Inl e | Inr fr \<Rightarrow> f fr)"

text \<open>
  \<open>pDisplay.from_estimator(model, x_test, y_test)\<close> inside \<open>plot_metrics\<close>: reading the
  free variable \<open>model\<close> before it is bound is a \<open>NameError\<close>, scikit-learn refuses an
  estimator that is not fitted, and on a fitted one the display is drawn unless the
  library fails; a failed display draws nothing.
\<close>

definition from_estimator :: "sklearn \<Rightarrow> plot \<Rightarrow> frame \<Rightarrow> outcome" where
  "from_estimator env p fr =
     (case model fr of
        None \<Rightarrow> raise NameError fr
      | Some m \<Rightarrow>
          if fitted m then
            (case display env p (params m) (x_train fr) (y_train fr) (x_test fr) (y_test fr) of
               Some failure \<Rightarrow> raise (display_error failure) fr
             | None \<Rightarrow> Inr (emit (Display p m (x_test fr) (y_test fr)) fr))
          else raise NotFittedError fr)"

text \<open>\<open>plot_metrics\<close> (lines 52-64): three tests in a fixed order.\<close>

definition plot_metrics :: "sklearn \<Rightarrow> string list \<Rightarrow> frame \<Rightarrow> outcome" where
  "plot_metrics env metrics_list fr =
     then_run
       (if ''Confusion Matrix'' \<in> set metrics_list
        then then_run (from_estimator env ConfusionMatrix
                         (emit (Subheader Page ''Confusion Matrix'') fr))
               (\<lambda>fr. Inr (emit Pyplot fr))
        else Inr fr)
       (\<lambda>fr. then_run
          (if ''ROC Curve'' \<in> set metrics_list
           then then_run (from_estimator env ROCCurve (emit (Subheader Page ''ROC Curve'') fr))
                  (\<lambda>fr. Inr (emit Pyplot fr))
           else Inr fr)
          (\<lambda>fr. if ''Precision-Recall Curve'' \<in> set metrics_list
                then then_run
                       (from_estimator env PrecisionRecallCurve
                          (emit (Subheader Page ''Precision-Recall Curve'') fr))
                       (\<lambda>fr. Inr (emit Pyplot fr))
                else Inr fr))"

text \<open>
  The body of \<open>if st.sidebar.button("Classify")\<close>, the same in the three branches but for
  the heading and the constructor call (lines 88-99, 112-123, 137-148).
\<close>

definition classify :: "sklearn \<Rightarrow> string \<Rightarrow> model_params \<Rightarrow> string list \<Rightarrow> frame \<Rightarrow> outcome" where
  "classify env heading mp metrics_list fr0 =
     (let fr1 = emit (Subheader Page heading) fr0;
          fr2 = (emit (Construct mp) fr1)\<lparr>model := Some \<lparr>params = mp, fitted = False\<rparr>\<rparr>
      in if \<not> fit_ok env mp (x_train fr2) (y_train fr2) then raise ValueError fr2
         else
           let fr3 = (emit (Fit mp) fr2)\<lparr>model := Some \<lparr>params = mp, fitted = True\<rparr>\<rparr>;
               y_pred = predict env mp (x_train fr3) (y_train fr3) (x_test fr3)
           in case accuracy_score (y_test fr3) y_pred of
                Inl e \<Rightarrow> raise e fr3
              | Inr accuracy \<Rightarrow>
                  let fr4 = emit (Write ''Accuracy: '' (round2 (tie_up env) accuracy)) fr3
                  in case precision_score (y_test fr4) y_pred (class_names fr4) of
                       Inl e \<Rightarrow> raise e fr4
                     | Inr precision \<Rightarrow>
                         let fr5 = emit (Write ''Precision: '' (round2 (tie_up env) precision)) fr4
                         in case recall_score (y_test fr5) y_pred (class_names fr5) of
                              Inl e \<Rightarrow> raise e fr5
                            | Inr recall \<Rightarrow>
                                plot_metrics env metrics_list
                                  (emit (Write ''Recall: '' (round2 (tie_up env) recall)) fr5))"

definition svm_branch :: "sklearn \<Rightarrow> ui \<Rightarrow> frame \<Rightarrow> outcome" where
  "svm_branch env u fr =
     (if classifier u = ''Support Vector Machine (SVM)'' then
        let fr1 = emit (Subheader Sidebar ''Model Hyperparameters'') fr in
        if classify_clicked u
        then classify env ''Support Vector Machine (SVM) Results''
               (SVC (C_SVM u) (kernel u) (gamma u)) (metrics u) fr1
        else Inr fr1
      else Inr fr)"

definition lr_branch :: "sklearn \<Rightarrow> ui \<Rightarrow> frame \<Rightarrow> outcome" where
  "lr_branch env u fr =
     (if classifier u = ''Logistic Regression'' then
        let fr1 = emit (Subheader Sidebar ''Model Hyperparameters'') fr in
        if classify_clicked u
        then classify env ''Logistic Regression Results''
               (LogisticRegression (C_LR u) (max_iter u)) (metrics u) fr1
        else Inr fr1
      else Inr fr)"

definition rf_branch :: "sklearn \<Rightarrow> ui \<Rightarrow> frame \<Rightarrow> outcome" where
  "rf_branch env u fr =
     (if classifier u = ''Random Forest'' then
        let fr1 = emit (Subheader Sidebar ''Model Hyperparameters'') fr in
        if classify_clicked u
        then classify env ''Random Forest Results''
               (RandomForestClassifier (n_estimators u) (max_depth u) (PStr (bootstrap u)) (- 1))
               (metrics u) fr1
        else Inr fr1
      else Inr fr)"

definition raw_data :: "ui \<Rightarrow> dataframe \<Rightarrow> frame \<Rightarrow> outcome" where
  "raw_data u df fr =
     (if show_raw_data u
      then Inr (emit (WriteFrame df)
                  (emit (Subheader Page ''Mushroom Data Set for Classification'') fr))
      else Inr fr)"

text \<open>
  The four calls at the head of \<open>main\<close> (lines 27-30). The markdown text ends with a
  mushroom emoji in the source; the strings here are ASCII and leave it out.
\<close>

definition titles :: "event list" where
  "titles =
     [Title Page ''Binary Classification Web App'',
      Title Sidebar ''Binary Classification Web App'',
      Markdown Page ''Are your mushrooms edible or poisonous?'',
      Markdown Sidebar ''Are your mushrooms edible or poisonous?'']"

text \<open>
  \<open>main\<close> (lines 25-153): the titles, the load, the split, then the three branches in
  the order of the source and the raw-data checkbox.
\<close>

definition main :: "sklearn \<Rightarrow> ui \<Rightarrow> world \<Rightarrow> outcome \<times> world" where
  "main env u w =
     (case load_data w of
        (Inl e, w1) \<Rightarrow> (Inl (e, titles), w1)
      | (Inr df, w1) \<Rightarrow>
          (case split (rng env) df w1 of
             (Inl e, w2) \<Rightarrow> (Inl (e, titles), w2)
           | (Inr (xtr, xte, ytr, yte), w2) \<Rightarrow>
               (let fr = \<lparr>trace = titles @ [Subheader Sidebar ''Choose Classifier''],
                          model = None,
                          x_train = xtr, x_test = xte, y_train = ytr, y_test = yte,
                          class_names = [PStr ''edible'', PStr ''poisonous'']\<rparr>
                in (then_run
                      (then_run
                         (then_run (svm_branch env u fr) (lr_branch env u))
                         (rf_branch env u))
                      (raw_data u df),
                    w2))))"

fun trace_of :: "outcome \<Rightarrow> event list" where
  "trace_of (Inl (e, tr)) = tr"
| "trace_of (Inr fr) = trace fr"

fun error_of :: "outcome \<Rightarrow> error option" where
  "error_of (Inl (e, tr)) = Some e"
| "error_of (Inr fr) = None"

text \<open>Python's truth value of an object, as \<open>if bootstrap:\<close> reads it.\<close>

fun truthy :: "pyval \<Rightarrow> bool" where
  "truthy (PStr s) = (s \<noteq> [])"
| "truthy (PInt i) = (i \<noteq> 0)"
| "truthy (PBool b) = b"

section \<open>Reading a trace\<close>

text \<open>The label of a plot in the multiselect, and the plots a trace draws, in order.\<close>

fun plot_name :: "plot \<Rightarrow> string" where
  "plot_name ConfusionMatrix = ''Confusion Matrix''"
| "plot_name ROCCurve = ''ROC Curve''"
| "plot_name PrecisionRecallCurve = ''Precision-Recall Curve''"

fun displayed :: "event list \<Rightarrow> plot list" where
  "displayed [] = []"
| "displayed (Display p m x y # es) = p # displayed es"
| "displayed (e # es) = displayed es"

text \<open>
  The events of the plots selected in \<open>metrics_list\<close>, taken in the order Confusion
  Matrix, ROC Curve, Precision-Recall Curve: a subheader, the drawing, \<open>st.pyplot()\<close>.
\<close>

definition plot_events :: "string list \<Rightarrow> estimator \<Rightarrow> dataframe \<Rightarrow> pyval list \<Rightarrow> event list" where
  "plot_events metrics_list m x y =
     concat (map (\<lambda>p. [Subheader Page (plot_name p), Display p m x y, Pyplot])
               (filter (\<lambda>p. plot_name p \<in> set metrics_list)
                  [ConfusionMatrix, ROCCurve, PrecisionRecallCurve]))"

text \<open>
  The events \<open>plot_metrics\<close> adds for an estimator \<open>m\<close> and data \<open>x\<close>, \<open>y\<close>: subheaders on
  the page, drawings of \<open>m\<close> on \<open>x\<close> and \<open>y\<close>, and \<open>st.pyplot()\<close>.
\<close>

fun is_plot_event :: "estimator \<Rightarrow> dataframe \<Rightarrow> pyval list \<Rightarrow> event \<Rightarrow> bool" where
  "is_plot_event m x y (Subheader Page s) = True"
| "is_plot_event m x y (Display p m' x' y') = (m' = m \<and> x' = x \<and> y' = y)"
| "is_plot_event m x y Pyplot = True"
| "is_plot_event m x y e = False"

text \<open>An event is drawn from \<open>x\<close>, \<open>y\<close> when it is no drawing or a drawing on \<open>x\<close> and \<open>y\<close>.\<close>

fun drawn_from :: "dataframe \<Rightarrow> pyval list \<Rightarrow> event \<Rightarrow> bool" where
  "drawn_from x y (Display p m x' y') = (x' = x \<and> y' = y)"
| "drawn_from x y e = True"

text \<open>The events that construct a model instance.\<close>

fun is_construct :: "event \<Rightarrow> bool" where
  "is_construct (Construct mp) = True"
| "is_construct e = False"

text \<open>A written metric is in range when it is a number between \<open>0\<close> and \<open>1\<close>.\<close>

fun metric_in_range :: "event \<Rightarrow> bool" where
  "metric_in_range (Write label (Num x)) = (0 \<le> x \<and> x \<le> 1)"
| "metric_in_range (Write label NaN) = False"
| "metric_in_range e = True"

text \<open>
  \<open>plots_after_fit seen es\<close>: every drawing in \<open>es\<close> is of a fitted estimator and comes
  after a \<open>Fit\<close> of that estimator's model (\<open>seen\<close>: the model fitted before \<open>es\<close>, if any).
\<close>

fun plots_after_fit :: "model_params option \<Rightarrow> event list \<Rightarrow> bool" where
  "plots_after_fit seen [] = True"
| "plots_after_fit seen (Fit mp # es) = plots_after_fit (Some mp) es"
| "plots_after_fit seen (Display p m x y # es) =
     (fitted m \<and> seen = Some (params m) \<and> plots_after_fit seen es)"
| "plots_after_fit seen (e # es) = plots_after_fit seen es"

text \<open>
  The heading and the constructor call of the branch the select box chooses; the three
  tests of \<open>main\<close> compare \<open>classifier\<close> with three different strings, so at most one
  branch runs.
\<close>

definition selected_model :: "ui \<Rightarrow> (string \<times> model_params) option" where
  "selected_model u =
     (if classifier u = ''Support Vector Machine (SVM)''
      then Some (''Support Vector Machine (SVM) Results'', SVC (C_SVM u) (kernel u) (gamma u))
      else if classifier u = ''Logistic Regression''
      then Some (''Logistic Regression Results'', LogisticRegression (C_LR u) (max_iter u))
      else if classifier u = ''Random Forest''
      then Some (''Random Forest Results'',
                 RandomForestClassifier (n_estimators u) (max_depth u) (PStr (bootstrap u)) (- 1))
      else None)"

section \<open>A sample run\<close>

text \<open>
  Four rows in the layout of the mushroom dataset (the label column \<open>type\<close> with the
  values \<open>p\<close> and \<open>e\<close>, one feature column), an empty cache, and a library whose
  generator draws \<open>i\<close> at step \<open>i\<close> (the shuffle then keeps the order of the rows), whose
  \<open>fit\<close> accepts every model, whose models predict class \<open>1\<close> for every row, whose
  displays never fail and whose rounding goes down near a tie.
\<close>

definition raw0 :: dataframe where
  "raw0 = \<lparr>nrows = 4,
            columns = [(''type'', [PStr ''p'', PStr ''e'', PStr ''e'', PStr ''p'']),
                       (''odor'', [PStr ''n'', PStr ''a'', PStr ''n'', PStr ''f''])]\<rparr>"

definition w0 :: world where
  "w0 = \<lparr>files = (\<lambda>path. if path = ''mushrooms.csv'' then Some raw0 else None),
          reads = 0, load_data_cache = None, split_cache = []\<rparr>"

definition df0 :: dataframe where
  "df0 = \<lparr>nrows = 4,
           columns = [(''type'', [PInt 1, PInt 0, PInt 0, PInt 1]),
                      (''odor'', [PInt 2, PInt 0, PInt 2, PInt 1])]\<rparr>"

definition env0 :: sklearn where
  "env0 = \<lparr>rng = (\<lambda>i. i), fit_ok = (\<lambda>mp x y. True),
            predict = (\<lambda>mp x y xt. replicate (nrows xt) (PInt 1)),
            display = (\<lambda>p mp x y xt yt. None), tie_up = (\<lambda>x. False)\<rparr>"

definition ui0 :: ui where
  "ui0 = \<lparr>classifier = ''Random Forest'', C_SVM = 1, kernel = ''rbf'', gamma = ''scale'',
           C_LR = 1, max_iter = 100, n_estimators = 100, max_depth = 1,
           bootstrap = ''False'', metrics = [''ROC Curve'', ''Confusion Matrix''],
           classify_clicked = True, show_raw_data = False\<rparr>"

text \<open>The same library, but for a ROC display that refuses every estimator.\<close>

definition env_roc_fails :: sklearn where
  "env_roc_fails =
     env0\<lparr>display := (\<lambda>p mp x y xt yt. if p = ROCCurve then Some NotBinary else None)\<rparr>"

text \<open>The same file without the label column.\<close>

definition raw_no_type :: dataframe where
  "raw_no_type = \<lparr>nrows = 2, columns = [(''odor'', [PStr ''n'', PStr ''a''])]\<rparr>"

definition w_no_type :: world where
  "w_no_type = \<lparr>files = (\<lambda>path. if path = ''mushrooms.csv'' then Some raw_no_type else None),
                 reads = 0, load_data_cache = None, split_cache = []\<rparr>"

definition df_no_type :: dataframe where
  "df_no_type = \<lparr>nrows = 2, columns = [(''odor'', [PInt 1, PInt 0])]\<rparr>"

text \<open>A frame of \<open>main\<close> after a logistic regression has been fitted.\<close>

definition fr0 :: frame where
  "fr0 = \<lparr>trace = [], model = Some \<lparr>params = LogisticRegression 1 100, fitted = True\<rparr>,
           x_train = \<lparr>nrows = 2, columns = [(''odor'', [PInt 2, PInt 1])]\<rparr>,
           x_test = \<lparr>nrows = 2, columns = [(''odor'', [PInt 2, PInt 0])]\<rparr>,
           y_train = [PInt 0, PInt 1], y_test = [PInt 1, PInt 0],
           class_names = [PStr ''edible'', PStr ''poisonous'']\<rparr>"

section \<open>Properties of the encoder\<close>

lemma strs_of_set: "list_all is_str vs \<Longrightarrow> PStr ` set (strs_of vs) = set vs"
  by (induction vs rule: strs_of.induct) auto

lemma ints_of_set: "list_all is_int vs \<Longrightarrow> PInt ` set (ints_of vs) = set vs"
  by (induction vs rule: ints_of.induct) auto

lemma bools_of_set: "list_all is_bool vs \<Longrightarrow> PBool ` set (bools_of vs) = set vs"
  by (induction vs rule: bools_of.induct) auto

lemma unique_sorted_set: "unique_sorted vs = Inr classes \<Longrightarrow> set classes = set vs"
  by (auto simp: unique_sorted_def strs_of_set ints_of_set bools_of_set split: if_splits)

lemma unique_sorted_distinct: "unique_sorted vs = Inr classes \<Longrightarrow> distinct classes"
  by (auto simp: unique_sorted_def distinct_map inj_on_def split: if_splits)

lemma index_of_less: "v \<in> set xs \<Longrightarrow> index_of xs v < length xs"
  by (induction xs) auto

lemma index_of_nth: "v \<in> set xs \<Longrightarrow> xs ! index_of xs v = v"
  by (induction xs) auto

lemma index_of_inj: "u \<in> set xs \<Longrightarrow> v \<in> set xs \<Longrightarrow> index_of xs u = index_of xs v \<Longrightarrow> u = v"
  by (metis index_of_nth)

lemma unique_sorted_length: "unique_sorted vs = Inr classes \<Longrightarrow> length classes = card (set vs)"
  using unique_sorted_set [of vs classes] unique_sorted_distinct [of vs classes]
  by (metis distinct_card)

lemma fit_transform_length: "fit_transform vs = Inr codes \<Longrightarrow> length codes = length vs"
  by (auto simp: fit_transform_def split: sum.splits)

lemma fit_transform_nth:
  assumes "fit_transform vs = Inr codes" and "i < length vs"
  shows "\<exists>c. codes ! i = PInt (int c) \<and> c < card (set vs)"
proof -
  from assms(1) obtain classes where cl: "unique_sorted vs = Inr classes"
    and codes: "codes = map (\<lambda>v. PInt (int (index_of classes v))) vs"
    by (auto simp: fit_transform_def split: sum.splits)
  have "vs ! i \<in> set classes"
    using cl assms(2) by (simp add: unique_sorted_set)
  then have "index_of classes (vs ! i) < card (set vs)"
    using index_of_less [of "vs ! i" classes] unique_sorted_length [OF cl] by simp
  then show ?thesis
    using codes assms(2) by auto
qed

lemma fit_transform_same_code:
  assumes "fit_transform vs = Inr codes" and "i < length vs" and "j < length vs"
  shows "codes ! i = codes ! j \<longleftrightarrow> vs ! i = vs ! j"
proof -
  from assms(1) obtain classes where cl: "unique_sorted vs = Inr classes"
    and codes: "codes = map (\<lambda>v. PInt (int (index_of classes v))) vs"
    by (auto simp: fit_transform_def split: sum.splits)
  have "vs ! i \<in> set classes" and "vs ! j \<in> set classes"
    using cl assms(2,3) by (simp_all add: unique_sorted_set)
  then show ?thesis
    using codes assms(2,3) index_of_inj [of "vs ! i" classes "vs ! j"] by auto
qed

lemma fit_transform_ints: "fit_transform vs = Inr codes \<Longrightarrow> list_all is_int codes"
  by (auto simp: fit_transform_def list_all_iff split: sum.splits)

section \<open>Properties of the splitter\<close>

lemma shuffle_length: "length (shuffle draw i xs) = length xs"
  by (induction i arbitrary: xs) (simp_all add: swap_def)

lemma shuffle_set: "i < length xs \<Longrightarrow> set (shuffle draw i xs) = set xs"
proof (induction i arbitrary: xs)
  case 0
  then show ?case by simp
next
  case (Suc i)
  have j: "draw (Suc i) mod Suc (Suc i) < length xs"
    proof -
    have "draw (Suc i) mod Suc (Suc i) < Suc (Suc i)" by simp
    then show ?thesis using Suc.prems by linarith
  qed
  have "set (swap (Suc i) (draw (Suc i) mod Suc (Suc i)) xs) = set xs"
    unfolding swap_def using Suc.prems j by simp
  moreover have "i < length (swap (Suc i) (draw (Suc i) mod Suc (Suc i)) xs)"
    using Suc.prems by (simp add: swap_def)
  ultimately show ?case
    using Suc.IH [of "swap (Suc i) (draw (Suc i) mod Suc (Suc i)) xs"] by simp
qed

lemma permutation_length: "length (permutation draw n) = n"
  by (simp add: permutation_def shuffle_length)

lemma permutation_set: "set (permutation draw n) = {..<n}"
proof (cases n)
  case 0
  then show ?thesis by (simp add: permutation_def)
next
  case (Suc m)
  then have "m < length [0..<n]" by simp
  then have "set (shuffle draw m [0..<n]) = set [0..<n]" by (rule shuffle_set)
  moreover have "permutation draw n = shuffle draw m [0..<n]"
    unfolding permutation_def using Suc by simp
  ultimately show ?thesis by (simp add: atLeast0LessThan)
qed

lemma n_test_of_bounds:
  "3 * n \<le> 10 * n_test_of n \<and> 10 * n_test_of n < 3 * n + 10"
proof -
  define c where "c = \<lceil>(3 / 10 :: rat) * of_nat n\<rceil>"
  have lo: "(3 / 10 :: rat) * of_nat n \<le> of_int c"
    unfolding c_def by (rule le_of_int_ceiling)
  have hi: "of_int c < (3 / 10 :: rat) * of_nat n + 1"
    unfolding c_def using ceiling_correct [of "(3 / 10 :: rat) * of_nat n"] by linarith
  have "(0::rat) \<le> (3 / 10) * of_nat n" by simp
  then have c0: "0 \<le> c" unfolding c_def by (simp only: zero_le_ceiling)
  have "(3::rat) * of_int (int n) \<le> 10 * of_int c" using lo by simp
  then have "of_int (3 * int n) \<le> (of_int (10 * c) :: rat)" by simp
  then have a: "3 * int n \<le> 10 * c" by (simp only: of_int_le_iff)
  have "(10::rat) * of_int c < 3 * of_int (int n) + 10" using hi by simp
  then have "(of_int (10 * c) :: rat) < of_int (3 * int n + 10)" by simp
  then have b: "10 * c < 3 * int n + 10" by (simp only: of_int_less_iff)
  have "n_test_of n = nat c" by (simp add: n_test_of_def c_def)
  then show ?thesis using a b c0 by auto
qed

lemma n_test_of_le: "n_test_of n \<le> n"
  using n_test_of_bounds [of n] by (cases "n = 0") auto

lemma train_test_split_sizes:
  assumes "train_test_split draw x y = Inr (xtr, xte, ytr, yte)"
  shows "nrows xte = n_test_of (nrows x)"
    and "nrows xtr = nrows x - n_test_of (nrows x)"
    and "length yte = nrows xte"
    and "length ytr = nrows xtr"
    and "0 < nrows xtr"
    and "length y = nrows x"
  using assms n_test_of_le [of "nrows x"]
  by (auto simp: train_test_split_def Let_def iloc_def permutation_length split: if_splits)

lemma train_test_split_labels:
  assumes "train_test_split draw x y = Inr (xtr, xte, ytr, yte)"
  shows "set ytr \<subseteq> set y" and "set yte \<subseteq> set y"
proof -
  have len: "length y = nrows x"
    using assms by (rule train_test_split_sizes)
  have perm: "set (permutation draw (nrows x)) = {..<length y}"
    by (simp add: permutation_set len)
  have tr: "ytr = map (\<lambda>i. y ! i) (take (nrows x - n_test_of (nrows x)) (drop (n_test_of (nrows x)) (permutation draw (nrows x))))"
    and te: "yte = map (\<lambda>i. y ! i) (take (n_test_of (nrows x)) (permutation draw (nrows x)))"
    using assms by (auto simp: train_test_split_def Let_def split: if_splits)
  show "set ytr \<subseteq> set y"
  proof
    fix v assume "v \<in> set ytr"
    then obtain i where "i \<in> set (permutation draw (nrows x))" and "v = y ! i"
      unfolding tr by (auto dest!: in_set_takeD in_set_dropD)
    then show "v \<in> set y" using perm by auto
  qed
  show "set yte \<subseteq> set y"
  proof
    fix v assume "v \<in> set yte"
    then obtain i where "i \<in> set (permutation draw (nrows x))" and "v = y ! i"
      unfolding te by (auto dest!: in_set_takeD)
    then show "v \<in> set y" using perm by auto
  qed
qed

lemma split_hit_or_body:
  assumes "split_cache_ok draw w"
  shows "fst (split draw df w) = split_body draw df"
proof (cases "map_of (split_cache w) df")
  case None
  then show ?thesis by (simp add: split_def split: sum.splits)
next
  case (Some r)
  then have "(df, r) \<in> set (split_cache w)" by (rule map_of_SomeD)
  then have "split_body draw df = Inr r"
    using assms by (auto simp: split_cache_ok_def list_all_iff)
  then show ?thesis using Some by (simp add: split_def)
qed

lemma split_body_Inr:
  assumes "split_body draw df = Inr (xtr, xte, ytr, yte)"
  shows "\<exists>y. map_of (columns df) ''type'' = Some y \<and>
           train_test_split draw (drop_type df) y = Inr (xtr, xte, ytr, yte)"
  using assms by (auto simp: split_body_def df_type_def split: option.splits)

lemma split_Inr_body:
  assumes "split_cache_ok draw w" and "fst (split draw df w) = Inr r"
  shows "split_body draw df = Inr r"
  using split_hit_or_body [OF assms(1), of df] assms(2) by simp

section \<open>Properties of the loader\<close>

lemma encode_columns_nth:
  "encode_columns cs = Inr cs' \<Longrightarrow>
     length cs' = length cs \<and>
     (\<forall>j<length cs. fst (cs' ! j) = fst (cs ! j) \<and> fit_transform (snd (cs ! j)) = Inr (snd (cs' ! j)))"
proof (induction cs arbitrary: cs' rule: encode_columns.induct)
  case 1
  then show ?case by simp
next
  case (2 col vs rest)
  from "2.prems" obtain codes rest' where c: "fit_transform vs = Inr codes"
    and r: "encode_columns rest = Inr rest'" and cs': "cs' = (col, codes) # rest'"
    by (auto split: sum.splits)
  have ih: "length rest' = length rest \<and>
     (\<forall>j<length rest. fst (rest' ! j) = fst (rest ! j) \<and> fit_transform (snd (rest ! j)) = Inr (snd (rest' ! j)))"
    using "2.IH" [OF c r] .
  show ?case
    unfolding cs' using c ih by (auto simp: nth_Cons split: nat.splits)
qed

lemma load_data_body_file:
  assumes "files w ''mushrooms.csv'' = Some raw" and "fst (load_data_body w) = Inr df"
  shows "encode_columns (columns raw) = Inr (columns df) \<and> nrows df = nrows raw"
  using assms by (auto simp: load_data_body_def read_csv_def split: sum.splits)

lemma load_data_body_encoded:
  assumes "fst (load_data_body w) = Inr df"
  shows "\<exists>raw. files w ''mushrooms.csv'' = Some raw \<and>
           encode_columns (columns raw) = Inr (columns df) \<and> nrows df = nrows raw"
  using assms
  by (auto simp: load_data_body_def read_csv_def split: sum.splits option.splits)

lemma load_data_hit_or_body:
  assumes "load_cache_ok w"
  shows "fst (load_data w) = fst (load_data_body w)"
  using assms
  by (auto simp: load_data_def load_cache_ok_def split: option.splits prod.splits sum.splits)

lemma load_data_keeps_split_cache: "split_cache (snd (load_data w)) = split_cache w"
  by (auto simp: load_data_def load_data_body_def read_csv_def
      split: option.splits prod.splits sum.splits)

lemma load_data_type_column:
  assumes "load_cache_ok w" and "fst (load_data w) = Inr df"
    and "map_of (columns df) ''type'' = Some y"
  shows "list_all is_int y"
proof -
  have "fst (load_data_body w) = Inr df"
    using assms(1,2) by (simp add: load_data_hit_or_body)
  then obtain raw :: dataframe where enc: "encode_columns (columns raw) = Inr (columns df)"
    using load_data_body_encoded by blast
  have "(''type'', y) \<in> set (columns df)"
    using assms(3) by (rule map_of_SomeD)
  then obtain j where j: "j < length (columns df)" and cj: "columns df ! j = (''type'', y)"
    by (auto simp: in_set_conv_nth)
  have "fit_transform (snd (columns raw ! j)) = Inr y"
    using encode_columns_nth [OF enc] j cj by auto
  then show ?thesis by (rule fit_transform_ints)
qed

section \<open>Properties of the page\<close>

lemma plot_metrics_fitted:
  assumes "model fr = Some m" and "fitted m"
    and "\<And>p. plot_name p \<in> set ml \<Longrightarrow>
           display env p (params m) (x_train fr) (y_train fr) (x_test fr) (y_test fr) = None"
  shows "plot_metrics env ml fr =
           Inr (fr\<lparr>trace := trace fr @ plot_events ml m (x_test fr) (y_test fr)\<rparr>)"
  using assms(1,2) assms(3) [of ConfusionMatrix] assms(3) [of ROCCurve]
    assms(3) [of PrecisionRecallCurve]
  by (simp add: plot_metrics_def then_run_def from_estimator_def emit_def plot_events_def)

lemma display_error_cases: "display_error f = ValueError \<or> display_error f = IndexError"
  by (cases f) simp_all

lemma plot_metrics_suffix:
  assumes "model fr = Some m" and "fitted m"
  shows "take (length (trace fr)) (trace_of (plot_metrics env ml fr)) = trace fr \<and>
         list_all (is_plot_event m (x_test fr) (y_test fr))
           (drop (length (trace fr)) (trace_of (plot_metrics env ml fr))) \<and>
         (error_of (plot_metrics env ml fr) = None \<or>
          error_of (plot_metrics env ml fr) = Some ValueError \<or>
          error_of (plot_metrics env ml fr) = Some IndexError)"
  using assms display_error_cases
  by (simp add: plot_metrics_def then_run_def from_estimator_def emit_def raise_def
      split: option.splits)

lemma plot_metrics_ext:
  assumes "model fr = Some m" and "fitted m"
  shows "\<exists>es. trace_of (plot_metrics env ml fr) = trace fr @ es \<and>
              list_all (is_plot_event m (x_test fr) (y_test fr)) es"
proof -
  let ?t = "trace_of (plot_metrics env ml fr)"
  have "?t = take (length (trace fr)) ?t @ drop (length (trace fr)) ?t"
    by simp
  then have "?t = trace fr @ drop (length (trace fr)) ?t"
    using plot_metrics_suffix [OF assms, of env ml] by simp
  then show ?thesis
    using plot_metrics_suffix [OF assms, of env ml] by blast
qed

lemma plot_metrics_error:
  assumes "model fr = Some m" and "fitted m"
  shows "error_of (plot_metrics env ml fr) = None \<or>
         error_of (plot_metrics env ml fr) = Some ValueError \<or>
         error_of (plot_metrics env ml fr) = Some IndexError"
  using plot_metrics_suffix [OF assms, of env ml] by blast

lemma plot_metrics_stops_at_failed_display:
  "plot_metrics env_roc_fails [''Precision-Recall Curve'', ''ROC Curve'', ''Confusion Matrix''] fr0 =
     Inl (ValueError,
          [Subheader Page ''Confusion Matrix'',
           Display ConfusionMatrix \<lparr>params = LogisticRegression 1 100, fitted = True\<rparr>
             (x_test fr0) (y_test fr0),
           Pyplot,
           Subheader Page ''ROC Curve''])"
  by (simp add: plot_metrics_def then_run_def from_estimator_def emit_def raise_def
      env_roc_fails_def fr0_def)

lemma is_plot_event_in_range: "is_plot_event m x y e \<Longrightarrow> metric_in_range e"
  by (erule is_plot_event.elims) simp_all

lemma is_plot_event_drawn_from: "is_plot_event m x y e \<Longrightarrow> drawn_from x y e"
  by (erule is_plot_event.elims) simp_all

lemma plot_events_after_fit:
  "fitted m \<Longrightarrow> list_all (is_plot_event m x y) es \<Longrightarrow> plots_after_fit (Some (params m)) es"
proof (induction es)
  case Nil
  then show ?case by simp
next
  case (Cons e es)
  then have "is_plot_event m x y e" and "plots_after_fit (Some (params m)) es"
    by simp_all
  then show ?case
    using Cons.prems(1) by (cases e) auto
qed

lemma branches_selected:
  "then_run (then_run (then_run (svm_branch env u fr) (lr_branch env u)) (rf_branch env u))
     (raw_data u df) =
   (case selected_model u of
      None \<Rightarrow> raw_data u df fr
    | Some (heading, mp) \<Rightarrow>
        if classify_clicked u
        then then_run (classify env heading mp (metrics u)
                         (emit (Subheader Sidebar ''Model Hyperparameters'') fr))
               (raw_data u df)
        else raw_data u df (emit (Subheader Sidebar ''Model Hyperparameters'') fr))"
  by (simp add: svm_branch_def lr_branch_def rf_branch_def selected_model_def then_run_def
      Let_def split: sum.splits)

section \<open>Properties of the metrics\<close>

lemma count_pairs_le: "count_pairs P yt yp \<le> length yt"
proof -
  have "count_pairs P yt yp \<le> length (zip yt yp)"
    unfolding count_pairs_def by (rule length_filter_le)
  then show ?thesis by simp
qed

lemma count_pairs_mono:
  assumes "\<And>t p. P t p \<Longrightarrow> Q t p"
  shows "count_pairs P yt yp \<le> count_pairs Q yt yp"
proof -
  have "length (filter (\<lambda>(t, p). P t p) zs) \<le> length (filter (\<lambda>(t, p). Q t p) zs)" for zs
    using assms by (induction zs) auto
  then show ?thesis by (simp add: count_pairs_def)
qed

lemma ratio_in_unit:
  assumes "a \<le> b" and "0 < b"
  shows "0 \<le> (of_nat a / of_nat b :: rat) \<and> (of_nat a / of_nat b :: rat) \<le> 1"
  using assms by simp

lemma rint_range:
  assumes "0 \<le> x" and "x \<le> 100"
  shows "0 \<le> rint up x \<and> rint up x \<le> 100"
proof -
  have f0: "0 \<le> \<lfloor>x\<rfloor>" using assms(1) by simp
  have f100: "\<lfloor>x\<rfloor> \<le> 100" using assms(2) by (simp add: floor_le_iff)
  have step: "\<lfloor>x\<rfloor> + 1 \<le> 100" if "\<not> x - of_int \<lfloor>x\<rfloor> < 1 / 2 - 1 / 10 ^ 12"
  proof -
    have "x \<noteq> 100" using that by auto
    then have "x < 100" using assms(2) by simp
    then have "\<lfloor>x\<rfloor> < 100" by (simp add: floor_less_iff)
    then show ?thesis by simp
  qed
  show ?thesis
    using f0 f100 step by (auto simp: rint_def Let_def)
qed

lemma round2_range:
  assumes "0 \<le> x" and "x \<le> 1"
  shows "metric_in_range (Write label (round2 up (Num x)))"
proof -
  have "0 \<le> rint up (x * 100) \<and> rint up (x * 100) \<le> 100"
    using assms by (intro rint_range) simp_all
  then have "(0::rat) \<le> of_int (rint up (x * 100))"
    and "(of_int (rint up (x * 100)) :: rat) \<le> 100"
    by simp_all
  then show ?thesis by simp
qed

lemma accuracy_score_range:
  assumes "accuracy_score yt yp = Inr a" and "yt \<noteq> []"
  shows "metric_in_range (Write label (round2 up a))"
proof -
  have a: "a = Num (of_nat (count_pairs (\<lambda>t p. t = p) yt yp) / of_nat (length yt))"
    using assms by (auto simp: accuracy_score_def split: if_splits)
  show ?thesis
    unfolding a using assms(2) ratio_in_unit [OF count_pairs_le [of "\<lambda>t p. t = p" yt yp]]
    by (intro round2_range) simp_all
qed

lemma precision_score_range:
  assumes "precision_score yt yp labels = Inr a"
  shows "metric_in_range (Write label (round2 up a))"
proof -
  define tp where "tp = count_pairs (\<lambda>t p. t = PInt 1 \<and> p = PInt 1) yt yp"
  define pred_sum where "pred_sum = count_pairs (\<lambda>t p. p = PInt 1) yt yp"
  have a: "a = Num (if pred_sum = 0 then 0 else of_nat tp / of_nat pred_sum)"
    using assms by (auto simp: precision_score_def Let_def tp_def pred_sum_def split: option.splits)
  have "tp \<le> pred_sum"
    unfolding tp_def pred_sum_def by (rule count_pairs_mono) simp
  then show ?thesis
    unfolding a using ratio_in_unit [of tp pred_sum]
    by (intro round2_range) auto
qed

lemma recall_score_range:
  assumes "recall_score yt yp labels = Inr a"
  shows "metric_in_range (Write label (round2 up a))"
proof -
  define tp where "tp = count_pairs (\<lambda>t p. t = PInt 1 \<and> p = PInt 1) yt yp"
  define true_sum where "true_sum = count_pairs (\<lambda>t p. t = PInt 1) yt yp"
  have a: "a = Num (if true_sum = 0 then 0 else of_nat tp / of_nat true_sum)"
    using assms by (auto simp: recall_score_def Let_def tp_def true_sum_def split: option.splits)
  have "tp \<le> true_sum"
    unfolding tp_def true_sum_def by (rule count_pairs_mono) simp
  then show ?thesis
    unfolding a using ratio_in_unit [of tp true_sum]
    by (intro round2_range) auto
qed

section \<open>Properties of a run\<close>

lemma plots_after_fit_later: "plots_after_fit None es \<Longrightarrow> plots_after_fit seen es"
  by (induction "None :: model_params option" es rule: plots_after_fit.induct) simp_all

lemma plots_after_fit_append:
  "plots_after_fit seen a \<Longrightarrow> plots_after_fit None b \<Longrightarrow> plots_after_fit seen (a @ b)"
  by (induction seen a rule: plots_after_fit.induct) (simp_all add: plots_after_fit_later)

text \<open>
  What \<open>classify\<close> adds to the trace: written metrics in range (when the test labels are
  not empty), drawings only after the fit and only on the frame's test split; and it
  raises nothing but a \<open>ValueError\<close> or an \<open>IndexError\<close>.
\<close>

lemma classify_ext:
  "\<exists>es. trace_of (classify env heading mp ml fr) = trace fr @ es \<and>
         (y_test fr \<noteq> [] \<longrightarrow> list_all metric_in_range es) \<and>
         plots_after_fit None es \<and>
         list_all (drawn_from (x_test fr) (y_test fr)) es \<and>
         (error_of (classify env heading mp ml fr) = None \<or>
          error_of (classify env heading mp ml fr) = Some ValueError \<or>
          error_of (classify env heading mp ml fr) = Some IndexError)"
proof (cases "fit_ok env mp (x_train fr) (y_train fr)")
  case False
  then show ?thesis
    by (simp add: classify_def Let_def raise_def emit_def)
next
  case fit: True
  define y_pred where "y_pred = predict env mp (x_train fr) (y_train fr) (x_test fr)"
  show ?thesis
  proof (cases "accuracy_score (y_test fr) y_pred")
    case (Inl e)
    then have "e = ValueError"
      by (auto simp: accuracy_score_def split: if_splits)
    then show ?thesis
      using fit Inl by (simp add: classify_def Let_def raise_def emit_def y_pred_def)
  next
    case acc: (Inr a)
    have wa: "y_test fr \<noteq> [] \<Longrightarrow> metric_in_range (Write ''Accuracy: '' (round2 (tie_up env) a))"
      using acc by (rule accuracy_score_range)
    show ?thesis
    proof (cases "precision_score (y_test fr) y_pred (class_names fr)")
      case (Inl e)
      then have "e = ValueError"
        by (auto simp: precision_score_def check_binary_targets_def Let_def
            split: option.splits if_splits)
      then show ?thesis
        using fit acc Inl wa by (simp add: classify_def Let_def raise_def emit_def y_pred_def)
    next
      case prec: (Inr b)
      have wb: "metric_in_range (Write ''Precision: '' (round2 (tie_up env) b))"
        using prec by (rule precision_score_range)
      show ?thesis
      proof (cases "recall_score (y_test fr) y_pred (class_names fr)")
        case (Inl e)
        then have "e = ValueError"
          by (auto simp: recall_score_def check_binary_targets_def Let_def
              split: option.splits if_splits)
        then show ?thesis
          using fit acc prec Inl wa wb
          by (simp add: classify_def Let_def raise_def emit_def y_pred_def)
      next
        case rec: (Inr c)
        have wc: "metric_in_range (Write ''Recall: '' (round2 (tie_up env) c))"
          using rec by (rule recall_score_range)
        define m where "m = \<lparr>params = mp, fitted = True\<rparr>"
        define six where "six =
          [Subheader Page heading, Construct mp, Fit mp,
           Write ''Accuracy: '' (round2 (tie_up env) a),
           Write ''Precision: '' (round2 (tie_up env) b),
           Write ''Recall: '' (round2 (tie_up env) c)]"
        define fr6 where "fr6 = fr\<lparr>model := Some m, trace := trace fr @ six\<rparr>"
        have run: "classify env heading mp ml fr = plot_metrics env ml fr6"
          using fit acc prec rec
          by (simp add: classify_def Let_def emit_def y_pred_def fr6_def six_def m_def)
        have m6: "model fr6 = Some m" and fm: "fitted m"
          by (simp_all add: fr6_def m_def)
        obtain es where es: "trace_of (plot_metrics env ml fr6) = trace fr6 @ es"
          and pe: "list_all (is_plot_event m (x_test fr6) (y_test fr6)) es"
          using plot_metrics_ext [OF m6 fm] by blast
        have xy: "x_test fr6 = x_test fr" "y_test fr6 = y_test fr"
          by (simp_all add: fr6_def)
        have t: "trace_of (classify env heading mp ml fr) = trace fr @ six @ es"
          using run es by (simp add: fr6_def)
        have r: "list_all metric_in_range es"
          using pe by (auto simp: list_all_iff intro: is_plot_event_in_range)
        have d: "list_all (drawn_from (x_test fr) (y_test fr)) es"
          using pe xy by (auto simp: list_all_iff intro: is_plot_event_drawn_from)
        have "plots_after_fit (Some (params m)) es"
          using fm pe by (rule plot_events_after_fit)
        then have p: "plots_after_fit None (six @ es)"
          by (simp add: six_def m_def)
        have w: "y_test fr \<noteq> [] \<longrightarrow> list_all metric_in_range (six @ es)"
          using wa wb wc r by (simp add: six_def)
        have d': "list_all (drawn_from (x_test fr) (y_test fr)) (six @ es)"
          using d by (simp add: six_def)
        have e: "error_of (classify env heading mp ml fr) = None \<or>
                 error_of (classify env heading mp ml fr) = Some ValueError \<or>
                 error_of (classify env heading mp ml fr) = Some IndexError"
          unfolding run using m6 fm by (rule plot_metrics_error)
        show ?thesis
          using t p w d' e by blast
      qed
    qed
  qed
qed

lemma classify_metrics_in_range:
  assumes "y_test fr \<noteq> []" and "list_all metric_in_range (trace fr)"
  shows "list_all metric_in_range (trace_of (classify env heading mp ml fr))"
  using assms classify_ext [of env heading mp ml fr] by auto

lemma classify_plots_after_fit:
  assumes "plots_after_fit seen (trace fr)"
  shows "plots_after_fit seen (trace_of (classify env heading mp ml fr))"
  using assms classify_ext [of env heading mp ml fr] by (auto intro: plots_after_fit_append)

lemma classify_drawn_from:
  assumes "x_test fr = x" and "y_test fr = y" and "list_all (drawn_from x y) (trace fr)"
  shows "list_all (drawn_from x y) (trace_of (classify env heading mp ml fr))"
  using assms classify_ext [of env heading mp ml fr] by auto

lemma classify_error:
  "error_of (classify env heading mp ml fr) = None \<or>
   error_of (classify env heading mp ml fr) = Some ValueError \<or>
   error_of (classify env heading mp ml fr) = Some IndexError"
  using classify_ext [of env heading mp ml fr] by blast

lemma raw_data_trace:
  "trace_of (then_run r (raw_data u df)) =
     trace_of r @
     (if error_of r = None \<and> show_raw_data u
      then [Subheader Page ''Mushroom Data Set for Classification'', WriteFrame df] else [])"
  by (cases r) (auto simp: then_run_def raw_data_def emit_def)

lemma raw_data_error: "error_of (then_run r (raw_data u df)) = error_of r"
  by (cases r) (auto simp: then_run_def raw_data_def)

lemma main_load_fails:
  assumes "fst (load_data w) = Inl e"
  shows "fst (main env u w) = Inl (e, titles)"
  using assms by (auto simp: main_def split: prod.splits)

lemma main_split_fails:
  assumes "load_data w = (Inr df, w1)" and "fst (split (rng env) df w1) = Inl e"
  shows "fst (main env u w) = Inl (e, titles)"
  using assms by (auto simp: main_def split: prod.splits)

lemma main_run:
  assumes "load_data w = (Inr df, w1)"
    and "fst (split (rng env) df w1) = Inr (xtr, xte, ytr, yte)"
  shows "fst (main env u w) =
     then_run
       (case selected_model u of
          None \<Rightarrow> Inr \<lparr>trace = titles @ [Subheader Sidebar ''Choose Classifier''], model = None,
                       x_train = xtr, x_test = xte, y_train = ytr, y_test = yte,
                       class_names = [PStr ''edible'', PStr ''poisonous'']\<rparr>
        | Some (heading, mp) \<Rightarrow>
            if classify_clicked u
            then classify env heading mp (metrics u)
                   \<lparr>trace = titles @ [Subheader Sidebar ''Choose Classifier'',
                                      Subheader Sidebar ''Model Hyperparameters''],
                    model = None,
                    x_train = xtr, x_test = xte, y_train = ytr, y_test = yte,
                    class_names = [PStr ''edible'', PStr ''poisonous'']\<rparr>
            else Inr \<lparr>trace = titles @ [Subheader Sidebar ''Choose Classifier'',
                                        Subheader Sidebar ''Model Hyperparameters''],
                      model = None,
                      x_train = xtr, x_test = xte, y_train = ytr, y_test = yte,
                      class_names = [PStr ''edible'', PStr ''poisonous'']\<rparr>)
       (raw_data u df)"
proof -
  have "fst (main env u w) =
     then_run (then_run (then_run
        (svm_branch env u \<lparr>trace = titles @ [Subheader Sidebar ''Choose Classifier''], model = None,
                       x_train = xtr, x_test = xte, y_train = ytr, y_test = yte,
                       class_names = [PStr ''edible'', PStr ''poisonous'']\<rparr>)
        (lr_branch env u)) (rf_branch env u)) (raw_data u df)"
    using assms by (auto simp: main_def split: prod.splits)
  then show ?thesis
    unfolding branches_selected
    by (simp add: emit_def then_run_def split: option.splits)
qed

section \<open>Errors and the order of events\<close>

lemma encode_columns_error: "encode_columns cs = Inl e \<Longrightarrow> e = TypeError"
proof (induction cs rule: encode_columns.induct)
  case 1
  then show ?case by simp
next
  case (2 col vs rest)
  then show ?case
    by (auto simp: fit_transform_def unique_sorted_def split: sum.splits if_splits)
qed

lemma load_data_error:
  assumes "fst (load_data w) = Inl e"
  shows "e = FileNotFoundError \<or> e = TypeError"
  using assms
  by (auto simp: load_data_def load_data_body_def read_csv_def
      split: option.splits prod.splits sum.splits dest: encode_columns_error)

lemma split_body_error:
  assumes "split_body draw df = Inl e"
  shows "e = AttributeError \<or> e = ValueError"
  using assms
  by (auto simp: split_body_def df_type_def train_test_split_def Let_def
      split: option.splits if_splits)

lemma split_error:
  assumes "fst (split draw df w) = Inl e"
  shows "e = AttributeError \<or> e = ValueError"
  using assms split_body_error [of draw df e]
  by (auto simp: split_def split: option.splits sum.splits)

lemma split_body_no_type:
  assumes "''type'' \<notin> fst ` set (columns df)"
  shows "split_body draw df = Inl AttributeError"
proof -
  have "map_of (columns df) ''type'' = None"
    using assms by (simp add: map_of_eq_None_iff)
  then show ?thesis by (simp add: split_body_def df_type_def)
qed

lemma split_test_nonempty:
  assumes "split_cache_ok draw w" and "fst (split draw df w) = Inr (xtr, xte, ytr, yte)"
  shows "yte \<noteq> []"
proof -
  have "split_body draw df = Inr (xtr, xte, ytr, yte)"
    using assms by (rule split_Inr_body)
  then obtain y where tts: "train_test_split draw (drop_type df) y = Inr (xtr, xte, ytr, yte)"
    using split_body_Inr by blast
  note sz = train_test_split_sizes [OF tts]
  have "0 < nrows (drop_type df)" using sz(2,5) by simp
  then have "0 < n_test_of (nrows (drop_type df))"
    using n_test_of_bounds [of "nrows (drop_type df)"] by auto
  then show ?thesis using sz(1,3) by auto
qed

lemma displayed_append: "displayed (a @ b) = displayed a @ displayed b"
  by (induction a rule: displayed.induct) simp_all

lemma displayed_plot_events:
  "displayed (plot_events ml m x y) =
     filter (\<lambda>p. plot_name p \<in> set ml) [ConfusionMatrix, ROCCurve, PrecisionRecallCurve]"
  by (simp add: plot_events_def)

section \<open>Claim C1: the labels argument of precision and recall\<close>

text \<open>
  C1 fails on the code. In the sample run the program passes
  \<open>labels = ['edible', 'poisonous']\<close> to \<open>precision_score\<close> and \<open>recall_score\<close>, while the
  test label vector holds the codes \<open>1\<close> and \<open>0\<close>: the two strings are not the classes of
  \<open>y_test\<close>, and none of them occurs in it.
\<close>

theorem labels_argument_not_test_classes:
  "(case fst (main env0 ui0 w0) of
      Inl e \<Rightarrow> False
    | Inr fr \<Rightarrow>
        class_names fr = [PStr ''edible'', PStr ''poisonous''] \<and>
        y_test fr = [PInt 1, PInt 0] \<and>
        set (class_names fr) \<noteq> set (y_test fr) \<and>
        set (class_names fr) \<inter> set (y_test fr) = {})"
  by code_simp

section \<open>Claim C2: the bootstrap argument of the random forest\<close>

text \<open>
  C2 fails on the code. With the option \<open>False\<close> chosen in the radio group, the model is
  constructed with \<open>bootstrap\<close> bound to the string \<open>'False'\<close>, which is not the boolean
  \<open>False\<close> and which Python reads as true.
\<close>

theorem bootstrap_argument_is_a_string:
  "bootstrap ui0 = ''False'' \<and>
   Construct (RandomForestClassifier 100 1 (PStr ''False'') (- 1))
     \<in> set (trace_of (fst (main env0 ui0 w0))) \<and>
   PStr ''False'' \<noteq> PBool False \<and>
   truthy (PStr ''False'')"
  by code_simp

section \<open>Claim C3: the sizes of the partition\<close>

text \<open>
  C3. For every encoded dataset \<open>df\<close> that \<open>split\<close> accepts, the training and the test
  part together have as many rows as \<open>df\<close>, the label vectors are as long as their
  feature frames, the test part has \<open>ceil(0.3 * len(df))\<close> rows, and the test fraction
  differs from \<open>0.3\<close> by less than one row's share \<open>1 / len(df)\<close>.
\<close>

theorem split_partition_sizes:
  assumes "split_cache_ok draw w"
    and "fst (split draw df w) = Inr (xtr, xte, ytr, yte)"
  shows "nrows xtr + nrows xte = nrows df \<and>
         length ytr = nrows xtr \<and> length yte = nrows xte \<and>
         nrows xte = nat \<lceil>(3 / 10 :: rat) * of_nat (nrows df)\<rceil> \<and>
         \<bar>of_nat (nrows xte) / of_nat (nrows df) - (3 / 10 :: rat)\<bar> < 1 / of_nat (nrows df)"
proof -
  have "split_body draw df = Inr (xtr, xte, ytr, yte)"
    using assms by (rule split_Inr_body)
  then obtain y where tts: "train_test_split draw (drop_type df) y = Inr (xtr, xte, ytr, yte)"
    using split_body_Inr by blast
  have n: "nrows (drop_type df) = nrows df"
    by (simp add: drop_type_def)
  note sz = train_test_split_sizes [OF tts, unfolded n]
  have le: "n_test_of (nrows df) \<le> nrows df"
    by (rule n_test_of_le)
  have pos: "0 < nrows df"
    using sz(2,5) by simp
  have b: "3 * nrows df \<le> 10 * nrows xte" "10 * nrows xte < 3 * nrows df + 10"
    using n_test_of_bounds [of "nrows df"] sz(1) by simp_all
  have lo: "(3 / 10 :: rat) \<le> of_nat (nrows xte) / of_nat (nrows df)"
  proof -
    have "(of_nat (3 * nrows df) :: rat) \<le> of_nat (10 * nrows xte)"
      using b(1) by (simp only: of_nat_le_iff)
    then show ?thesis using pos by (simp add: field_simps)
  qed
  have hi: "of_nat (nrows xte) / of_nat (nrows df) < (3 / 10 :: rat) + 1 / of_nat (nrows df)"
  proof -
    have "(of_nat (10 * nrows xte) :: rat) < of_nat (3 * nrows df + 10)"
      using b(2) by (simp only: of_nat_less_iff)
    then show ?thesis using pos by (simp add: field_simps)
  qed
  have ratio: "\<bar>of_nat (nrows xte) / of_nat (nrows df) - (3 / 10 :: rat)\<bar> < 1 / of_nat (nrows df)"
    using lo hi by linarith
  show ?thesis
    using sz le ratio by (simp add: n_test_of_def)
qed

theorem split_partition_sizes_witness:
  "split_cache_ok (rng env0) w0 \<and>
   fst (split (rng env0) df0 w0) =
     Inr (\<lparr>nrows = 2, columns = [(''odor'', [PInt 2, PInt 1])]\<rparr>,
          \<lparr>nrows = 2, columns = [(''odor'', [PInt 2, PInt 0])]\<rparr>,
          [PInt 0, PInt 1], [PInt 1, PInt 0]) \<and>
   (2::nat) + 2 = nrows df0 \<and>
   \<bar>of_nat 2 / of_nat (nrows df0) - (3 / 10 :: rat)\<bar> < 1 / of_nat (nrows df0)"
proof -
  have c: "split_cache_ok (rng env0) w0"
    by (simp add: split_cache_ok_def w0_def)
  have s: "fst (split (rng env0) df0 w0) =
     Inr (\<lparr>nrows = 2, columns = [(''odor'', [PInt 2, PInt 1])]\<rparr>,
          \<lparr>nrows = 2, columns = [(''odor'', [PInt 2, PInt 0])]\<rparr>,
          [PInt 0, PInt 1], [PInt 1, PInt 0])"
    by code_simp
  show ?thesis
    using split_partition_sizes [OF c s] c s by simp
qed

section \<open>Claim C4: a table without the label column\<close>

text \<open>
  C4, as the code has it. When the table \<open>load_data\<close> returns has no column named
  \<open>type\<close>, \<open>split\<close> fails with the \<open>AttributeError\<close> of the attribute access \<open>df.type\<close>,
  and \<open>main\<close> ends there, with nothing but the titles on the page: no model instance
  has been constructed.
\<close>

theorem split_missing_type_column:
  assumes "load_data w = (Inr df, w1)"
    and "''type'' \<notin> fst ` set (columns df)"
    and "split_cache_ok (rng env) w1"
  shows "fst (split (rng env) df w1) = Inl AttributeError \<and>
         fst (main env u w) = Inl (AttributeError, titles) \<and>
         \<not> list_ex is_construct (trace_of (fst (main env u w)))"
proof -
  have "split_body (rng env) df = Inl AttributeError"
    using assms(2) by (rule split_body_no_type)
  then have sp: "fst (split (rng env) df w1) = Inl AttributeError"
    using split_hit_or_body [OF assms(3), of df] by simp
  then have "fst (main env u w) = Inl (AttributeError, titles)"
    using assms(1) by (intro main_split_fails)
  then show ?thesis
    using sp by (simp add: titles_def)
qed

theorem split_missing_type_column_witness:
  "fst (load_data w_no_type) = Inr df_no_type \<and>
   ''type'' \<notin> fst ` set (columns df_no_type) \<and>
   split_cache_ok (rng env0) (snd (load_data w_no_type)) \<and>
   fst (split (rng env0) df_no_type (snd (load_data w_no_type))) = Inl AttributeError \<and>
   fst (main env0 ui0 w_no_type) = Inl (AttributeError, titles) \<and>
   \<not> list_ex is_construct (trace_of (fst (main env0 ui0 w_no_type)))"
proof -
  have l: "fst (load_data w_no_type) = Inr df_no_type"
    by code_simp
  then have l': "load_data w_no_type = (Inr df_no_type, snd (load_data w_no_type))"
    by (metis prod.collapse)
  have t: "''type'' \<notin> fst ` set (columns df_no_type)"
    by (simp add: df_no_type_def)
  have c: "split_cache_ok (rng env0) (snd (load_data w_no_type))"
    by (simp add: split_cache_ok_def load_data_keeps_split_cache w_no_type_def)
  show ?thesis
    using split_missing_type_column [OF l' t c, of ui0] l t c by blast
qed

text \<open>
  The claim as stated names \<open>InvalidSchemaError\<close>; on the sample table without the
  label column the exception is \<open>AttributeError\<close>.
\<close>

theorem split_missing_type_column_counterexample:
  "''type'' \<notin> fst ` set (columns df_no_type) \<and>
   fst (split (rng env0) df_no_type w_no_type) = Inl AttributeError \<and>
   fst (split (rng env0) df_no_type w_no_type) \<noteq> Inl InvalidSchemaError"
proof -
  have t: "''type'' \<notin> fst ` set (columns df_no_type)"
    by (simp add: df_no_type_def)
  have s: "fst (split (rng env0) df_no_type w_no_type) = Inl AttributeError"
    by code_simp
  show ?thesis
    using t s by simp
qed

section \<open>Claim C5: the codes of the encoder\<close>

text \<open>
  C5. The table \<open>load_data\<close> returns has the columns of the raw dataset, and in every
  column every value is an integer code in \<open>[0, k-1]\<close>, \<open>k\<close> the number of distinct
  values of that column of the raw dataset; two rows get the same code exactly when
  they hold the same raw value.
\<close>

theorem load_data_codes:
  assumes "load_cache_ok w"
    and "files w ''mushrooms.csv'' = Some raw"
    and "fst (load_data w) = Inr df"
  shows "map fst (columns df) = map fst (columns raw) \<and>
         (\<forall>j<length (columns raw).
            length (snd (columns df ! j)) = length (snd (columns raw ! j)) \<and>
            (\<forall>i<length (snd (columns raw ! j)).
               (\<exists>c. snd (columns df ! j) ! i = PInt c \<and> 0 \<le> c \<and>
                    c \<le> int (card (set (snd (columns raw ! j)))) - 1) \<and>
               (\<forall>i'<length (snd (columns raw ! j)).
                  (snd (columns df ! j) ! i = snd (columns df ! j) ! i') =
                  (snd (columns raw ! j) ! i = snd (columns raw ! j) ! i'))))"
proof -
  have "fst (load_data_body w) = Inr df"
    using assms(1,3) by (simp add: load_data_hit_or_body)
  then have enc: "encode_columns (columns raw) = Inr (columns df)"
    using assms(2) load_data_body_file by blast
  note nth = encode_columns_nth [OF enc]
  have names: "map fst (columns df) = map fst (columns raw)"
    using nth by (auto intro: nth_equalityI)
  have cols: "length (snd (columns df ! j)) = length (snd (columns raw ! j)) \<and>
            (\<forall>i<length (snd (columns raw ! j)).
               (\<exists>c. snd (columns df ! j) ! i = PInt c \<and> 0 \<le> c \<and>
                    c \<le> int (card (set (snd (columns raw ! j)))) - 1) \<and>
               (\<forall>i'<length (snd (columns raw ! j)).
                  (snd (columns df ! j) ! i = snd (columns df ! j) ! i') =
                  (snd (columns raw ! j) ! i = snd (columns raw ! j) ! i')))"
    if j: "j < length (columns raw)" for j
  proof -
    have ft: "fit_transform (snd (columns raw ! j)) = Inr (snd (columns df ! j))"
      using nth j by simp
    have range: "\<exists>c. snd (columns df ! j) ! i = PInt c \<and> 0 \<le> c \<and>
                    c \<le> int (card (set (snd (columns raw ! j)))) - 1"
      if "i < length (snd (columns raw ! j))" for i
      using fit_transform_nth [OF ft that] by auto
    show ?thesis
      using fit_transform_length [OF ft] fit_transform_same_code [OF ft] range by simp
  qed
  show ?thesis
    using names cols by simp
qed

theorem load_data_codes_witness:
  "load_cache_ok w0 \<and> files w0 ''mushrooms.csv'' = Some raw0 \<and> fst (load_data w0) = Inr df0 \<and>
   map fst (columns df0) = map fst (columns raw0) \<and>
   (\<exists>c. snd (columns df0 ! 1) ! 3 = PInt c \<and> 0 \<le> c \<and>
        c \<le> int (card (set (snd (columns raw0 ! 1)))) - 1) \<and>
   ((snd (columns df0 ! 1) ! 0 = snd (columns df0 ! 1) ! 2) =
    (snd (columns raw0 ! 1) ! 0 = snd (columns raw0 ! 1) ! 2))"
proof -
  have c: "load_cache_ok w0"
    by (simp add: load_cache_ok_def w0_def)
  have f: "files w0 ''mushrooms.csv'' = Some raw0"
    by (simp add: w0_def)
  have l: "fst (load_data w0) = Inr df0"
    by code_simp
  have j: "(1::nat) < length (columns raw0)"
    by (simp add: raw0_def)
  have i: "(3::nat) < length (snd (columns raw0 ! 1))" "(0::nat) < length (snd (columns raw0 ! 1))"
    "(2::nat) < length (snd (columns raw0 ! 1))"
    by (simp_all add: raw0_def)
  show ?thesis
    using load_data_codes [OF c f l] c f l j i by blast
qed

section \<open>Claim C6: the plots that are rendered\<close>

text \<open>
  C6. Called with a fitted model and a list of plot names, and the library failing on
  none of the selected displays, \<open>plot_metrics\<close> returns and adds to the trace exactly the
  selected plots, each once, in the order Confusion Matrix, ROC Curve, Precision-Recall
  Curve, whatever the order of the list: for each its subheader, its drawing from the
  model and the test split, and \<open>st.pyplot()\<close>; nothing else of the frame changes.
\<close>

theorem plot_metrics_renders_selected:
  assumes "model fr = Some m" and "fitted m"
    and "\<forall>p. plot_name p \<in> set ml \<longrightarrow>
           display env p (params m) (x_train fr) (y_train fr) (x_test fr) (y_test fr) = None"
  shows "plot_metrics env ml fr =
           Inr (fr\<lparr>trace := trace fr @
                  concat (map (\<lambda>p. [Subheader Page (plot_name p),
                                      Display p m (x_test fr) (y_test fr), Pyplot])
                            (filter (\<lambda>p. plot_name p \<in> set ml)
                               [ConfusionMatrix, ROCCurve, PrecisionRecallCurve]))\<rparr>) \<and>
         displayed (trace_of (plot_metrics env ml fr)) =
           displayed (trace fr) @
           filter (\<lambda>p. plot_name p \<in> set ml) [ConfusionMatrix, ROCCurve, PrecisionRecallCurve]"
proof -
  have "plot_metrics env ml fr =
          Inr (fr\<lparr>trace := trace fr @ plot_events ml m (x_test fr) (y_test fr)\<rparr>)"
    using assms by (intro plot_metrics_fitted) simp_all
  then show ?thesis
    by (simp add: displayed_append displayed_plot_events) (simp add: plot_events_def)
qed

theorem plot_metrics_renders_selected_witness:
  "model fr0 = Some \<lparr>params = LogisticRegression 1 100, fitted = True\<rparr> \<and>
   fitted \<lparr>params = LogisticRegression 1 100, fitted = True\<rparr> \<and>
   display env0 = (\<lambda>p mp x y xt yt. None) \<and>
   plot_metrics env0 [''Confusion Matrix''] fr0 =
     Inr (fr0\<lparr>trace :=
            [Subheader Page ''Confusion Matrix'',
             Display ConfusionMatrix \<lparr>params = LogisticRegression 1 100, fitted = True\<rparr>
               (x_test fr0) (y_test fr0),
             Pyplot]\<rparr>) \<and>
   plot_metrics env0 [''Precision-Recall Curve'', ''Confusion Matrix''] fr0 =
     Inr (fr0\<lparr>trace :=
            [Subheader Page ''Confusion Matrix'',
             Display ConfusionMatrix \<lparr>params = LogisticRegression 1 100, fitted = True\<rparr>
               (x_test fr0) (y_test fr0),
             Pyplot,
             Subheader Page ''Precision-Recall Curve'',
             Display PrecisionRecallCurve \<lparr>params = LogisticRegression 1 100, fitted = True\<rparr>
               (x_test fr0) (y_test fr0),
             Pyplot]\<rparr>)"
proof -
  have m: "model fr0 = Some \<lparr>params = LogisticRegression 1 100, fitted = True\<rparr>"
    by (simp add: fr0_def)
  have f: "fitted \<lparr>params = LogisticRegression 1 100, fitted = True\<rparr>"
    by simp
  have d: "display env0 = (\<lambda>p mp x y xt yt. None)"
    by (simp add: env0_def)
  have h: "\<forall>p. plot_name p \<in> set ml \<longrightarrow>
             display env0 p (params \<lparr>params = LogisticRegression 1 100, fitted = True\<rparr>)
               (x_train fr0) (y_train fr0) (x_test fr0) (y_test fr0) = None" for ml
    by (simp add: d)
  have t: "trace fr0 = []"
    by (simp add: fr0_def)
  show ?thesis
    using plot_metrics_renders_selected [OF m f h, of "[''Confusion Matrix'']"]
      plot_metrics_renders_selected [OF m f h,
        of "[''Precision-Recall Curve'', ''Confusion Matrix'']"]
      m d t by simp
qed

section \<open>Claim C7: the displayed metrics lie in the unit interval\<close>

text \<open>
  C7. In every run of \<open>main\<close>, for every classifier family, every metric value written
  to the page (accuracy, precision, recall, each rounded to two decimals) is a number
  in \<open>[0, 1]\<close>.
\<close>

theorem written_metrics_in_unit_interval:
  assumes "split_cache_ok (rng env) w"
    and "Write label v \<in> set (trace_of (fst (main env u w)))"
  shows "\<exists>x. v = Num x \<and> 0 \<le> x \<and> x \<le> 1"
proof -
  have all: "list_all metric_in_range (trace_of (fst (main env u w)))"
  proof (cases "fst (load_data w)")
    case (Inl e)
    then show ?thesis by (simp add: main_load_fails titles_def)
  next
    case (Inr df)
    then have ld: "load_data w = (Inr df, snd (load_data w))"
      by (metis prod.collapse)
    have ok: "split_cache_ok (rng env) (snd (load_data w))"
      using assms(1) by (simp add: split_cache_ok_def load_data_keeps_split_cache)
    show ?thesis
    proof (cases "fst (split (rng env) df (snd (load_data w)))")
      case (Inl e)
      then show ?thesis by (simp add: main_split_fails [OF ld] titles_def)
    next
      case (Inr r)
      then obtain xtr xte ytr yte where sp:
        "fst (split (rng env) df (snd (load_data w))) = Inr (xtr, xte, ytr, yte)"
        by (cases r) auto
      have ne: "yte \<noteq> []"
        using ok sp by (rule split_test_nonempty)
      show ?thesis
        unfolding main_run [OF ld sp] raw_data_trace
        using ne
        by (auto simp: titles_def intro!: classify_metrics_in_range split: option.splits)
    qed
  qed
  then have "metric_in_range (Write label v)"
    using assms(2) by (simp add: list_all_iff)
  then show ?thesis by (cases v) simp_all
qed

theorem written_metrics_in_unit_interval_witness:
  "split_cache_ok (rng env0) w0 \<and>
   Write ''Accuracy: '' (Num (1 / 2)) \<in> set (trace_of (fst (main env0 ui0 w0))) \<and>
   (\<exists>x. Num (1 / 2) = Num x \<and> 0 \<le> x \<and> x \<le> 1)"
proof -
  have c: "split_cache_ok (rng env0) w0"
    by (simp add: split_cache_ok_def w0_def)
  have m: "Write ''Accuracy: '' (Num (1 / 2)) \<in> set (trace_of (fst (main env0 ui0 w0)))"
    by code_simp
  show ?thesis
    using written_metrics_in_unit_interval [OF c m] c m by simp
qed

section \<open>Claim C8: the second call is a cache hit\<close>

text \<open>
  C8. When a call of \<open>load_data\<close> has returned a table, the next call returns the same
  table and leaves the world as it is: the read counter does not move, and this holds
  whatever the files on disk have become in between.
\<close>

theorem load_data_twice:
  assumes "load_data w = (Inr df, w1)"
  shows "load_data w1 = (Inr df, w1) \<and>
         reads (snd (load_data w1)) = reads w1 \<and>
         load_data (w1\<lparr>files := fs\<rparr>) = (Inr df, w1\<lparr>files := fs\<rparr>)"
proof -
  have "load_data_cache w1 = Some df"
    using assms
    by (auto simp: load_data_def split: option.splits prod.splits sum.splits)
  then show ?thesis
    by (simp add: load_data_def)
qed

theorem load_data_twice_witness:
  "fst (load_data w0) = Inr df0 \<and> reads (snd (load_data w0)) = 1 \<and>
   fst (load_data (snd (load_data w0))) = Inr df0 \<and>
   reads (snd (load_data (snd (load_data w0)))) = 1 \<and>
   fst (load_data ((snd (load_data w0))\<lparr>files := (\<lambda>path. None)\<rparr>)) = Inr df0"
proof -
  have l: "fst (load_data w0) = Inr df0"
    by code_simp
  have r: "reads (snd (load_data w0)) = 1"
    by code_simp
  have "load_data w0 = (Inr df0, snd (load_data w0))"
    using l by (metis prod.collapse)
  from load_data_twice [OF this, of "\<lambda>path. None"] show ?thesis
    using l r by simp
qed

section \<open>Claim C9: plots are drawn from a fitted model only\<close>

text \<open>
  C9. In every run of \<open>main\<close>, every drawing of a plot is of a fitted estimator and
  follows the \<open>fit\<close> of that estimator, the data of every drawing are the \<open>x_test\<close> and
  \<open>y_test\<close> that \<open>split\<close> returned for the loaded table, and the run never ends with the
  \<open>NameError\<close> of an unbound \<open>model\<close> or with the \<open>NotFittedError\<close> of an unfit one:
  \<open>plot_metrics\<close> is reached only after a model has been constructed and fitted, with the
  test split bound.
\<close>

theorem plots_only_after_fit:
  "plots_after_fit None (trace_of (fst (main env u w))) \<and>
   error_of (fst (main env u w)) \<noteq> Some NameError \<and>
   error_of (fst (main env u w)) \<noteq> Some NotFittedError \<and>
   (\<forall>p m x y. Display p m x y \<in> set (trace_of (fst (main env u w))) \<longrightarrow>
      (\<exists>df xtr ytr. fst (load_data w) = Inr df \<and>
         fst (split (rng env) df (snd (load_data w))) = Inr (xtr, x, ytr, y)))"
proof (cases "fst (load_data w)")
  case (Inl e)
  then show ?thesis
    using load_data_error [of w e] by (auto simp: main_load_fails titles_def)
next
  case (Inr df)
  then have ld: "load_data w = (Inr df, snd (load_data w))"
    by (metis prod.collapse)
  show ?thesis
  proof (cases "fst (split (rng env) df (snd (load_data w)))")
    case (Inl e)
    then show ?thesis
      using split_error [of "rng env" df "snd (load_data w)" e]
      by (auto simp: main_split_fails [OF ld] titles_def)
  next
    case (Inr r)
    then obtain xtr xte ytr yte where sp:
      "fst (split (rng env) df (snd (load_data w))) = Inr (xtr, xte, ytr, yte)"
      by (cases r) auto
    have raw: "plots_after_fit None
                 (if c then [Subheader Page ''Mushroom Data Set for Classification'', WriteFrame df]
                  else [])" for c
      by simp
    have order: "plots_after_fit None (trace_of (fst (main env u w)))"
      unfolding main_run [OF ld sp] raw_data_trace
      by (intro plots_after_fit_append raw)
         (auto simp: titles_def intro!: classify_plots_after_fit split: option.splits)
    have err: "error_of (fst (main env u w)) = None \<or>
               error_of (fst (main env u w)) = Some ValueError \<or>
               error_of (fst (main env u w)) = Some IndexError"
      unfolding main_run [OF ld sp] raw_data_error
      using classify_error by (auto split: option.splits)
    have data: "list_all (drawn_from xte yte) (trace_of (fst (main env u w)))"
      unfolding main_run [OF ld sp] raw_data_trace
      by (auto simp: titles_def intro!: classify_drawn_from split: option.splits)
    have bound: "\<exists>df xtr ytr. fst (load_data w) = Inr df \<and>
         fst (split (rng env) df (snd (load_data w))) = Inr (xtr, x, ytr, y)"
      if "Display p m x y \<in> set (trace_of (fst (main env u w)))" for p m x y
    proof -
      have "drawn_from xte yte (Display p m x y)"
        using data that unfolding list_all_iff by blast
      then show ?thesis
        using \<open>fst (load_data w) = Inr df\<close> sp by auto
    qed
    show ?thesis
      using order err bound by auto
  qed
qed

theorem plots_only_after_fit_witness:
  "plots_after_fit None (trace_of (fst (main env0 ui0 w0))) \<and>
   displayed (trace_of (fst (main env0 ui0 w0))) = [ConfusionMatrix, ROCCurve] \<and>
   error_of (fst (main env0 ui0 w0)) = None \<and>
   Display ROCCurve
     \<lparr>params = RandomForestClassifier 100 1 (PStr ''False'') (- 1), fitted = True\<rparr>
     \<lparr>nrows = 2, columns = [(''odor'', [PInt 2, PInt 0])]\<rparr> [PInt 1, PInt 0]
     \<in> set (trace_of (fst (main env0 ui0 w0))) \<and>
   fst (load_data w0) = Inr df0 \<and>
   fst (split (rng env0) df0 (snd (load_data w0))) =
     Inr (\<lparr>nrows = 2, columns = [(''odor'', [PInt 2, PInt 1])]\<rparr>,
          \<lparr>nrows = 2, columns = [(''odor'', [PInt 2, PInt 0])]\<rparr>,
          [PInt 0, PInt 1], [PInt 1, PInt 0])"
proof -
  have d: "displayed (trace_of (fst (main env0 ui0 w0))) = [ConfusionMatrix, ROCCurve]"
    by code_simp
  have e: "error_of (fst (main env0 ui0 w0)) = None"
    by code_simp
  have r: "Display ROCCurve
     \<lparr>params = RandomForestClassifier 100 1 (PStr ''False'') (- 1), fitted = True\<rparr>
     \<lparr>nrows = 2, columns = [(''odor'', [PInt 2, PInt 0])]\<rparr> [PInt 1, PInt 0]
     \<in> set (trace_of (fst (main env0 ui0 w0)))"
    by code_simp
  have l: "fst (load_data w0) = Inr df0"
    by code_simp
  have s: "fst (split (rng env0) df0 (snd (load_data w0))) =
     Inr (\<lparr>nrows = 2, columns = [(''odor'', [PInt 2, PInt 1])]\<rparr>,
          \<lparr>nrows = 2, columns = [(''odor'', [PInt 2, PInt 0])]\<rparr>,
          [PInt 0, PInt 1], [PInt 1, PInt 0])"
    by code_simp
  show ?thesis
    using plots_only_after_fit [of env0 ui0 w0] d e r l s by blast
qed

section \<open>Claim C10: the label vectors hold integer codes\<close>

text \<open>
  C10. After \<open>load_data\<close> and \<open>split\<close>, every element of \<open>y_train\<close> and of \<open>y_test\<close> is an
  integer: the column \<open>type\<close> is encoded with the other columns, and the strings
  \<open>edible\<close> and \<open>poisonous\<close> occur in neither vector.
\<close>

theorem label_vectors_are_codes:
  assumes "load_cache_ok w"
    and "load_data w = (Inr df, w1)"
    and "split_cache_ok draw w1"
    and "fst (split draw df w1) = Inr (xtr, xte, ytr, yte)"
  shows "list_all is_int ytr \<and> list_all is_int yte \<and>
         PStr ''edible'' \<notin> set ytr \<union> set yte \<and>
         PStr ''poisonous'' \<notin> set ytr \<union> set yte"
proof -
  have "split_body draw df = Inr (xtr, xte, ytr, yte)"
    using assms(3,4) by (rule split_Inr_body)
  then obtain y where y: "map_of (columns df) ''type'' = Some y"
    and tts: "train_test_split draw (drop_type df) y = Inr (xtr, xte, ytr, yte)"
    using split_body_Inr by blast
  have ld: "fst (load_data w) = Inr df"
    using assms(2) by simp
  have "list_all is_int y"
    using assms(1) ld y by (rule load_data_type_column)
  then have ints: "\<forall>v\<in>set ytr \<union> set yte. is_int v"
    using train_test_split_labels [OF tts] by (auto simp: list_all_iff)
  have no_str: "PStr s \<notin> set ytr \<union> set yte" for s
  proof
    assume "PStr s \<in> set ytr \<union> set yte"
    then have "is_int (PStr s)" using ints by blast
    then show False by simp
  qed
  show ?thesis
    using ints no_str by (simp add: list_all_iff)
qed

theorem label_vectors_are_codes_witness:
  "load_cache_ok w0 \<and> fst (load_data w0) = Inr df0 \<and>
   split_cache_ok (rng env0) (snd (load_data w0)) \<and>
   fst (split (rng env0) df0 (snd (load_data w0))) =
     Inr (\<lparr>nrows = 2, columns = [(''odor'', [PInt 2, PInt 1])]\<rparr>,
          \<lparr>nrows = 2, columns = [(''odor'', [PInt 2, PInt 0])]\<rparr>,
          [PInt 0, PInt 1], [PInt 1, PInt 0]) \<and>
   list_all is_int [PInt 0, PInt 1] \<and> list_all is_int [PInt 1, PInt 0] \<and>
   PStr ''edible'' \<notin> set [PInt 0, PInt 1] \<union> set [PInt 1, PInt 0]"
proof -
  have c: "load_cache_ok w0"
    by (simp add: load_cache_ok_def w0_def)
  have l: "fst (load_data w0) = Inr df0"
    by code_simp
  then have l': "load_data w0 = (Inr df0, snd (load_data w0))"
    by (metis prod.collapse)
  have sc: "split_cache_ok (rng env0) (snd (load_data w0))"
    by (simp add: split_cache_ok_def load_data_keeps_split_cache w0_def)
  have s: "fst (split (rng env0) df0 (snd (load_data w0))) =
     Inr (\<lparr>nrows = 2, columns = [(''odor'', [PInt 2, PInt 1])]\<rparr>,
          \<lparr>nrows = 2, columns = [(''odor'', [PInt 2, PInt 0])]\<rparr>,
          [PInt 0, PInt 1], [PInt 1, PInt 0])"
    by code_simp
  show ?thesis
    using label_vectors_are_codes [OF c l' sc s] c l sc s by simp
qed

end
